theory Spec2Isabelle
  imports Main "HOL-Library.Word"
begin

unbundle bit_operations_syntax

section \<open>The platform: termios.h, errno.h and the C library\<close>

text \<open>
  \<^verbatim>\<open>kilo.c\<close> is one translation unit over the POSIX terminal interface. The
  headers it includes are not part of the repository; the model takes their types and
  constants as Linux with glibc defines them. \<^verbatim>\<open>tcflag_t\<close> and \<^verbatim>\<open>speed_t\<close> are
  \<^verbatim>\<open>unsigned int\<close>, \<^verbatim>\<open>cc_t\<close> is \<^verbatim>\<open>unsigned char\<close>,
  and \<^verbatim>\<open>c_cc\<close> is an array of \<^verbatim>\<open>NCCS\<close> entries.
\<close>

record termios =
  c_iflag :: "32 word"
  c_oflag :: "32 word"
  c_cflag :: "32 word"
  c_lflag :: "32 word"
  c_line :: "8 word"
  c_cc :: "8 word list"
  c_ispeed :: "32 word"
  c_ospeed :: "32 word"

definition NCCS :: nat where "NCCS = 32"

text \<open>Input flags.\<close>
definition BRKINT :: "32 word" where "BRKINT = 0x2"
definition ICRNL :: "32 word" where "ICRNL = 0x100"
definition INPCK :: "32 word" where "INPCK = 0x10"
definition ISTRIP :: "32 word" where "ISTRIP = 0x20"
definition IXON :: "32 word" where "IXON = 0x400"

text \<open>Output flags.\<close>
definition OPOST :: "32 word" where "OPOST = 0x1"

text \<open>Control flags: \<^verbatim>\<open>CS8\<close> is the two-bit character size field, both bits set.\<close>
definition CS8 :: "32 word" where "CS8 = 0x30"

text \<open>Local flags.\<close>
definition ECHO :: "32 word" where "ECHO = 0x8"
definition ICANON :: "32 word" where "ICANON = 0x2"
definition IEXTEN :: "32 word" where "IEXTEN = 0x8000"
definition ISIG :: "32 word" where "ISIG = 0x1"

text \<open>Indices into \<^verbatim>\<open>c_cc\<close>.\<close>
definition VMIN :: nat where "VMIN = 6"
definition VTIME :: nat where "VTIME = 5"

definition EAGAIN :: int where "EAGAIN = 11"

text \<open>
  What the kernel and the C library decide, and the program cannot: whether plain
  \<^verbatim>\<open>char\<close> is signed (it is on x86, it is not on ARM), the text
  \<^verbatim>\<open>strerror\<close> gives for an error number, and the outcome of every system
  call, by the number of calls of that kind made before it. For
  \<^verbatim>\<open>tcgetattr\<close> and \<^verbatim>\<open>tcsetattr\<close>, \<open>None\<close> is success and
  \<open>Some e\<close> is the return value \<open>-1\<close> with \<^verbatim>\<open>errno\<close> set to \<open>e\<close>.
\<close>

datatype read_result =
    RByte char   \<comment> \<open>\<^verbatim>\<open>read\<close> returns 1 and stores the byte\<close>
  | RNone        \<comment> \<open>\<^verbatim>\<open>read\<close> returns 0: the \<^verbatim>\<open>VTIME\<close> timeout ran out\<close>
  | RErr int     \<comment> \<open>\<^verbatim>\<open>read\<close> returns \<open>-1\<close> with this \<^verbatim>\<open>errno\<close>\<close>

record env =
  char_signed :: bool
  strerror :: "int \<Rightarrow> string"
  tcgetattr_ret :: "nat \<Rightarrow> int option"
  tcsetattr_ret :: "nat \<Rightarrow> int option"
  read_ret :: "nat \<Rightarrow> read_result"

text \<open>Functions registered with \<^verbatim>\<open>atexit\<close>; the program registers one.\<close>

datatype handler = DisableRawMode

text \<open>
  The state of the process and of the terminal on \<^verbatim>\<open>STDIN_FILENO\<close>:
  \<open>tty\<close> is the attributes the device has now, \<open>orig_termios\<close> is the global of
  the source, \<open>handlers\<close> is the \<^verbatim>\<open>atexit\<close> list (last registered first),
  \<open>stdout\<close> and \<open>stderr\<close> are the bytes written to the two streams so far, and the
  three counters say how many calls of each kind were made.
\<close>

record world =
  tty :: termios
  orig_termios :: termios
  errno :: int
  handlers :: "handler list"
  stdout :: string
  stderr :: string
  n_tcgetattr :: nat
  n_tcsetattr :: nat
  n_read :: nat

text \<open>A call either returns to its caller or has called \<^verbatim>\<open>exit\<close>.\<close>

datatype 'a result = Returns 'a world | Exits int world

text \<open>
  A loop is run for a number of iterations at most: \<open>Running w\<close> says that it has not
  left after that many, in state \<open>w\<close>.
\<close>

datatype 'a fuelled = Done 'a | Running world

subsection \<open>System calls\<close>

text \<open>
  \<^verbatim>\<open>tcgetattr(STDIN_FILENO, p)\<close>: the attributes of the device, or nothing with
  \<^verbatim>\<open>errno\<close> set; the caller stores the attributes where \<open>p\<close> points.
\<close>

definition tcgetattr :: "env \<Rightarrow> world \<Rightarrow> termios option \<times> world" where
  "tcgetattr E w =
     (let w' = w\<lparr>n_tcgetattr := n_tcgetattr w + 1\<rparr> in
      case tcgetattr_ret E (n_tcgetattr w) of
        None \<Rightarrow> (Some (tty w), w')
      | Some e \<Rightarrow> (None, w'\<lparr>errno := e\<rparr>))"

text \<open>
  \<^verbatim>\<open>tcsetattr(STDIN_FILENO, TCSAFLUSH, &t)\<close>: returns 0 and the device has the
  attributes \<open>t\<close>, or returns \<open>-1\<close>, sets \<^verbatim>\<open>errno\<close> and leaves the device
  as it was. Nothing but this call changes the attributes of the device: the process is
  single-threaded and owns the terminal while it runs.
\<close>

definition tcsetattr :: "env \<Rightarrow> termios \<Rightarrow> world \<Rightarrow> int \<times> world" where
  "tcsetattr E t w =
     (let w' = w\<lparr>n_tcsetattr := n_tcsetattr w + 1\<rparr> in
      case tcsetattr_ret E (n_tcsetattr w) of
        None \<Rightarrow> (0, w'\<lparr>tty := t\<rparr>)
      | Some e \<Rightarrow> (- 1, w'\<lparr>errno := e\<rparr>))"

text \<open>
  \<^verbatim>\<open>read(STDIN_FILENO, &c, 1)\<close>: the return value and the content of \<open>c\<close>
  after the call, which is the old content unless a byte arrived.
\<close>

definition read :: "env \<Rightarrow> char \<Rightarrow> world \<Rightarrow> int \<times> char \<times> world" where
  "read E c w =
     (let w' = w\<lparr>n_read := n_read w + 1\<rparr> in
      case read_ret E (n_read w) of
        RByte b \<Rightarrow> (1, b, w')
      | RNone \<Rightarrow> (0, c, w')
      | RErr e \<Rightarrow> (- 1, c, w'\<lparr>errno := e\<rparr>))"

subsection \<open>ctype.h and stdio.h\<close>

text \<open>
  The value of a byte held in a \<^verbatim>\<open>char\<close> once promoted to \<^verbatim>\<open>int\<close>.
\<close>

definition char_to_int :: "env \<Rightarrow> char \<Rightarrow> int" where
  "char_to_int E b =
     (if char_signed E \<and> 128 \<le> (of_char b :: nat) then int (of_char b) - 256
      else int (of_char b))"

text \<open>
  \<^verbatim>\<open>iscntrl\<close> in the "C" locale (the program never calls
  \<^verbatim>\<open>setlocale\<close>): the codes 0 to 31 and 127. glibc answers 0 for the negative
  values a signed \<^verbatim>\<open>char\<close> above 127 promotes to.
\<close>

definition iscntrl :: "int \<Rightarrow> bool" where
  "iscntrl c = ((0 \<le> c \<and> c < 32) \<or> c = 127)"

text \<open>The conversion \<^verbatim>\<open>%d\<close>.\<close>

fun dec_nat :: "nat \<Rightarrow> string" where
  "dec_nat n =
     (if n < 10 then [char_of (48 + n)]
      else dec_nat (n div 10) @ [char_of (48 + n mod 10)])"

definition dec :: "int \<Rightarrow> string" where
  "dec i = (if i < 0 then CHR ''-'' # dec_nat (nat (- i)) else dec_nat (nat i))"

text \<open>
  The two calls of \<^verbatim>\<open>printf\<close>, by their format strings
  \<^verbatim>\<open>"%d\r\n"\<close> and \<^verbatim>\<open>"%d ('%c')\r\n"\<close>. The conversion
  \<^verbatim>\<open>%c\<close> writes its argument converted to \<^verbatim>\<open>unsigned char\<close>.
\<close>

definition printf_d :: "int \<Rightarrow> world \<Rightarrow> world" where
  "printf_d c w = w\<lparr>stdout := stdout w @ dec c @ [CHR 0x0D, CHR 0x0A]\<rparr>"

definition printf_d_c :: "int \<Rightarrow> int \<Rightarrow> world \<Rightarrow> world" where
  "printf_d_c c c' w =
     w\<lparr>stdout := stdout w @ dec c @ '' ('' @ [CHR 0x27, char_of c', CHR 0x27] @ '')''
          @ [CHR 0x0D, CHR 0x0A]\<rparr>"

text \<open>
  \<^verbatim>\<open>perror(s)\<close> writes \<open>s\<close>, a colon, a space, the text for
  \<^verbatim>\<open>errno\<close> and a newline to the error stream.
\<close>

definition perror :: "env \<Rightarrow> string \<Rightarrow> world \<Rightarrow> world" where
  "perror E s w =
     w\<lparr>stderr := stderr w @ s @ '': '' @ strerror E (errno w) @ [CHR 0x0A]\<rparr>"

definition atexit :: "handler \<Rightarrow> world \<Rightarrow> world" where
  "atexit h w = w\<lparr>handlers := h # handlers w\<rparr>"

section \<open>The program\<close>

definition die :: "env \<Rightarrow> string \<Rightarrow> world \<Rightarrow> 'a result" where
  "die E s w = Exits 1 (perror E s w)"

definition disableRawMode :: "env \<Rightarrow> world \<Rightarrow> unit result" where
  "disableRawMode E w =
     (case tcsetattr E (orig_termios w) w of (r, w1) \<Rightarrow>
        if r = - 1 then die E ''tcsetattr'' w1 else Returns () w1)"

text \<open>
  The local \<^verbatim>\<open>raw\<close> of \<^verbatim>\<open>enableRawMode\<close>, from its initialiser to the
  call that applies it. \<open>c_cc\<close> is written at the constant indices
  \<^verbatim>\<open>VMIN\<close> and \<^verbatim>\<open>VTIME\<close>, which are inside the array.
\<close>

definition raw_termios :: "termios \<Rightarrow> termios" where
  "raw_termios orig =
     (let raw = orig;
          raw = raw\<lparr>c_iflag := c_iflag raw AND NOT (BRKINT OR ICRNL OR INPCK OR ISTRIP OR IXON)\<rparr>;
          raw = raw\<lparr>c_oflag := c_oflag raw AND NOT OPOST\<rparr>;
          raw = raw\<lparr>c_cflag := c_cflag raw OR CS8\<rparr>;
          raw = raw\<lparr>c_lflag := c_lflag raw AND NOT (ECHO OR ICANON OR IEXTEN OR ISIG)\<rparr>;
          raw = raw\<lparr>c_cc := (c_cc raw)[VMIN := 0]\<rparr>;
          raw = raw\<lparr>c_cc := (c_cc raw)[VTIME := 1]\<rparr>
      in raw)"

text \<open>The value of the last \<^verbatim>\<open>tcsetattr\<close> is not looked at.\<close>

definition enableRawMode :: "env \<Rightarrow> world \<Rightarrow> unit result" where
  "enableRawMode E w =
     (case tcgetattr E w of
        (None, w1) \<Rightarrow> die E ''tcsgetattr'' w1
      | (Some t, w1) \<Rightarrow>
          (let w2 = w1\<lparr>orig_termios := t\<rparr>;
               w3 = atexit DisableRawMode w2;
               raw = raw_termios (orig_termios w3);
               (r, w4) = tcsetattr E raw w3
           in Returns () w4))"

text \<open>
  One iteration of \<^verbatim>\<open>while (1)\<close>: \<open>Returns True\<close> is the
  \<^verbatim>\<open>break\<close>, \<open>Returns False\<close> goes round again.
\<close>

definition loop_body :: "env \<Rightarrow> world \<Rightarrow> bool result" where
  "loop_body E w =
     (let c = CHR 0x00 in
      case read E c w of (r, c, w1) \<Rightarrow>
        if r = - 1 \<and> errno w1 \<noteq> EAGAIN then die E ''read'' w1
        else
          (let w2 = (if iscntrl (char_to_int E c) then printf_d (char_to_int E c) w1
                     else printf_d_c (char_to_int E c) (char_to_int E c) w1)
           in Returns (char_to_int E c = int (of_char CHR ''q'')) w2))"

fun while_loop :: "env \<Rightarrow> nat \<Rightarrow> world \<Rightarrow> unit result fuelled" where
  "while_loop E 0 w = Running w"
| "while_loop E (Suc n) w =
     (case loop_body E w of
        Exits st w' \<Rightarrow> Done (Exits st w')
      | Returns brk w' \<Rightarrow> if brk then Done (Returns () w') else while_loop E n w')"

definition main :: "env \<Rightarrow> nat \<Rightarrow> world \<Rightarrow> int result fuelled" where
  "main E n w =
     (case enableRawMode E w of
        Exits st w' \<Rightarrow> Done (Exits st w')
      | Returns u w1 \<Rightarrow>
          (case while_loop E n w1 of
             Running w' \<Rightarrow> Running w'
           | Done (Exits st w') \<Rightarrow> Done (Exits st w')
           | Done (Returns u' w') \<Rightarrow> Done (Returns 0 w')))"

subsection \<open>Process start and exit\<close>

text \<open>
  \<^verbatim>\<open>exit(st)\<close> calls the registered functions, last registered first, and ends
  the process with status \<open>st\<close>. A registered function that itself calls
  \<^verbatim>\<open>exit\<close> (as \<^verbatim>\<open>disableRawMode\<close> does through \<^verbatim>\<open>die\<close>)
  is outside ISO C; glibc goes on with the functions not yet called and ends the process
  with the status of the last call, and so does the model.
\<close>

fun call_handler :: "env \<Rightarrow> handler \<Rightarrow> world \<Rightarrow> unit result" where
  "call_handler E DisableRawMode w = disableRawMode E w"

fun run_handlers :: "env \<Rightarrow> handler list \<Rightarrow> int \<Rightarrow> world \<Rightarrow> int \<times> world" where
  "run_handlers E [] st w = (st, w)"
| "run_handlers E (h # hs) st w =
     (case call_handler E h w of
        Returns u w' \<Rightarrow> run_handlers E hs st w'
      | Exits st' w' \<Rightarrow> run_handlers E hs st' w')"

definition c_exit :: "env \<Rightarrow> int \<Rightarrow> world \<Rightarrow> int \<times> world" where
  "c_exit E st w = run_handlers E (handlers w) st (w\<lparr>handlers := []\<rparr>)"

text \<open>
  At process start the device has some attributes \<open>dev\<close>, the global is zero
  (static storage), nothing is registered and nothing was written.
\<close>

definition zero_termios :: termios where
  "zero_termios =
     \<lparr>c_iflag = 0, c_oflag = 0, c_cflag = 0, c_lflag = 0, c_line = 0,
      c_cc = replicate NCCS 0, c_ispeed = 0, c_ospeed = 0\<rparr>"

definition init_world :: "termios \<Rightarrow> world" where
  "init_world dev =
     \<lparr>tty = dev, orig_termios = zero_termios, errno = 0, handlers = [],
      stdout = [], stderr = [], n_tcgetattr = 0, n_tcsetattr = 0, n_read = 0\<rparr>"

text \<open>
  The whole process: \<^verbatim>\<open>main\<close>, then \<^verbatim>\<open>exit\<close> with the value it
  returned, or the rest of the \<^verbatim>\<open>exit\<close> that \<^verbatim>\<open>die\<close> called. The
  result is the exit status and the state the process leaves behind.
\<close>

definition process :: "env \<Rightarrow> nat \<Rightarrow> termios \<Rightarrow> (int \<times> world) fuelled" where
  "process E n dev =
     (case main E n (init_world dev) of
        Running w \<Rightarrow> Running w
      | Done (Returns r w) \<Rightarrow> Done (c_exit E r w)
      | Done (Exits st w) \<Rightarrow> Done (c_exit E st w))"

section \<open>Reading outcomes and runs\<close>

fun world_of :: "'a result \<Rightarrow> world" where
  "world_of (Returns x w) = w"
| "world_of (Exits st w) = w"

fun returned :: "'a result \<Rightarrow> bool" where
  "returned (Returns x w) = True"
| "returned (Exits st w) = False"

text \<open>
  Of a process run: the exit status once it has ended, and the state it has reached
  (the state left behind, when it has ended).
\<close>

fun status :: "(int \<times> world) fuelled \<Rightarrow> int option" where
  "status (Done (st, w)) = Some st"
| "status (Running w) = None"

fun final :: "(int \<times> world) fuelled \<Rightarrow> world" where
  "final (Done (st, w)) = w"
| "final (Running w) = w"

text \<open>Of the loop: the state it has reached.\<close>

fun loop_world :: "'a result fuelled \<Rightarrow> world" where
  "loop_world (Done r) = world_of r"
| "loop_world (Running w) = w"

text \<open>
  The outcomes of \<^verbatim>\<open>read\<close> after which the loop goes round again: no byte,
  the error \<^verbatim>\<open>EAGAIN\<close>, and every byte but \<^verbatim>\<open>'q'\<close>.
\<close>

fun goes_on :: "read_result \<Rightarrow> bool" where
  "goes_on (RByte b) = (b \<noteq> CHR ''q'')"
| "goes_on RNone = True"
| "goes_on (RErr e) = (e = EAGAIN)"

text \<open>What an iteration of the loop leaves alone when it goes round again.\<close>

definition same_session :: "world \<Rightarrow> world \<Rightarrow> bool" where
  "same_session w w' \<longleftrightarrow>
     tty w' = tty w \<and> orig_termios w' = orig_termios w \<and> handlers w' = handlers w \<and>
     stderr w' = stderr w \<and> n_tcgetattr w' = n_tcgetattr w \<and> n_tcsetattr w' = n_tcsetattr w"

text \<open>What no iteration of the loop touches, however it ends.\<close>

definition same_device :: "world \<Rightarrow> world \<Rightarrow> bool" where
  "same_device w w' \<longleftrightarrow>
     tty w' = tty w \<and> orig_termios w' = orig_termios w \<and> handlers w' = handlers w \<and>
     n_tcgetattr w' = n_tcgetattr w \<and> n_tcsetattr w' = n_tcsetattr w"

subsection \<open>Sample terminals and environments\<close>

text \<open>The attributes a Linux terminal has in a login shell.\<close>

definition cooked :: termios where
  "cooked =
     \<lparr>c_iflag = 0x4500, c_oflag = 0x5, c_cflag = 0xBF, c_lflag = 0x8A3B, c_line = 0,
      c_cc = [3, 28, 127, 21, 4, 0, 1, 0, 17, 19, 26, 0, 18, 15, 23, 22] @ replicate 16 0,
      c_ispeed = 0xF, c_ospeed = 0xF\<rparr>"

text \<open>The outcomes \<open>rs\<close> of the first reads, and no byte ever after.\<close>

definition keys :: "read_result list \<Rightarrow> nat \<Rightarrow> read_result" where
  "keys rs i = (if i < length rs then rs ! i else RNone)"

definition messages :: "int \<Rightarrow> string" where
  "messages e =
     (if e = 5 then ''Input/output error''
      else if e = 11 then ''Resource temporarily unavailable''
      else if e = 25 then ''Inappropriate ioctl for device''
      else ''Unknown error'')"

text \<open>
  An environment by the signedness of \<^verbatim>\<open>char\<close>, the outcome of
  \<^verbatim>\<open>tcgetattr\<close>, of the first \<^verbatim>\<open>tcsetattr\<close>, of every later
  \<^verbatim>\<open>tcsetattr\<close>, and the reads.
\<close>

definition sample_env ::
  "bool \<Rightarrow> int option \<Rightarrow> int option \<Rightarrow> int option \<Rightarrow> read_result list \<Rightarrow> env" where
  "sample_env sg g s0 s1 rs =
     \<lparr>char_signed = sg, strerror = messages, tcgetattr_ret = (\<lambda>k. g),
      tcsetattr_ret = (\<lambda>k. if k = 0 then s0 else s1), read_ret = keys rs\<rparr>"

section \<open>The steps of the program, case by case\<close>

lemma char_to_int_q: "(char_to_int E b = int (of_char CHR ''q'')) = (b = CHR ''q'')"
proof -
  have lt: "(of_char b :: nat) < 256" by simp
  have eq: "((of_char b :: nat) = of_char CHR ''q'') = (b = CHR ''q'')"
    by (rule of_char_eq_iff)
  show ?thesis
  proof (cases "char_signed E \<and> 128 \<le> (of_char b :: nat)")
    case True
    then have "char_to_int E b < 0" using lt by (simp add: char_to_int_def)
    moreover have "b \<noteq> CHR ''q''" using True by auto
    ultimately show ?thesis by simp
  next
    case False
    then have "char_to_int E b = int (of_char b)" by (auto simp add: char_to_int_def)
    then show ?thesis using eq by simp
  qed
qed

lemma char_of_char_to_int: "char_of (char_to_int E b) = b"
proof -
  have "char_of (int (of_char b) - 256) = char_of ((int (of_char b) - 256) mod 256)"
    by (simp only: char_of_mod_256)
  also have "\<dots> = char_of (int (of_char b) mod 256)" by (simp add: mod_diff_right_eq)
  also have "\<dots> = char_of (int (of_char b))" by (simp only: char_of_mod_256)
  finally have a: "char_of (int (of_char b) - 256) = char_of (int (of_char b))" .
  have b: "char_of (int (of_char b)) = b"
    by (simp add: of_nat_of_char)
  show ?thesis using a b by (simp add: char_to_int_def)
qed

lemma iscntrl_char_to_int:
  "iscntrl (char_to_int E b) = ((of_char b :: nat) < 32 \<or> (of_char b :: nat) = 127)"
proof -
  have lt: "(of_char b :: nat) < 256" by simp
  show ?thesis
    unfolding iscntrl_def char_to_int_def using lt by (auto simp del: nat_of_char_less_256)
qed

lemma loop_body_byte:
  assumes "read_ret E (n_read w) = RByte b"
  shows "loop_body E w = Returns (b = CHR ''q'')
     (w\<lparr>n_read := n_read w + 1,
        stdout := stdout w @
          (if (of_char b :: nat) < 32 \<or> (of_char b :: nat) = 127
           then dec (char_to_int E b) @ [CHR 0x0D, CHR 0x0A]
           else dec (char_to_int E b) @ '' ('' @ [CHR 0x27, b, CHR 0x27] @ '')'' @ [CHR 0x0D, CHR 0x0A])\<rparr>)"
  using assms
  by (simp add: loop_body_def read_def Let_def printf_d_def printf_d_c_def
      char_to_int_q char_of_char_to_int iscntrl_char_to_int del: of_char_Char)

lemma char_to_int_NUL: "char_to_int E (CHR 0x00) = 0"
  by (simp add: char_to_int_def)

lemma dec_0: "dec 0 = ''0''"
  by code_simp

lemma loop_body_none:
  assumes "read_ret E (n_read w) = RNone"
  shows "loop_body E w = Returns False
     (w\<lparr>n_read := n_read w + 1, stdout := stdout w @ ''0'' @ [CHR 0x0D, CHR 0x0A]\<rparr>)"
  using assms
  by (simp add: loop_body_def read_def Let_def printf_d_def char_to_int_NUL iscntrl_def dec_0)

lemma loop_body_eagain:
  assumes "read_ret E (n_read w) = RErr EAGAIN"
  shows "loop_body E w = Returns False
     (w\<lparr>n_read := n_read w + 1, errno := EAGAIN, stdout := stdout w @ ''0'' @ [CHR 0x0D, CHR 0x0A]\<rparr>)"
  using assms
  by (simp add: loop_body_def read_def Let_def printf_d_def char_to_int_NUL iscntrl_def dec_0)

lemma loop_body_fatal:
  assumes "read_ret E (n_read w) = RErr e" and "e \<noteq> EAGAIN"
  shows "loop_body E w = Exits 1
     (w\<lparr>n_read := n_read w + 1, errno := e,
        stderr := stderr w @ ''read: '' @ strerror E e @ [CHR 0x0A]\<rparr>)"
  using assms
  by (simp add: loop_body_def read_def Let_def die_def perror_def)

lemma loop_body_goes_on:
  assumes "goes_on (read_ret E (n_read w))"
  shows "\<exists>w'. loop_body E w = Returns False w' \<and> same_session w w' \<and>
           n_read w' = n_read w + 1 \<and> (\<exists>out. stdout w' = stdout w @ out)"
proof (cases "read_ret E (n_read w)")
  case (RByte b)
  then have "b \<noteq> CHR ''q''" using assms by simp
  then show ?thesis
    by (simp add: loop_body_byte [OF RByte] same_session_def)
next
  case RNone
  then show ?thesis by (simp add: loop_body_none same_session_def)
next
  case (RErr e)
  then have "read_ret E (n_read w) = RErr EAGAIN" using assms by simp
  then show ?thesis by (simp add: loop_body_eagain same_session_def)
qed

lemma same_session_trans: "same_session a b \<Longrightarrow> same_session b c \<Longrightarrow> same_session a c"
  by (simp add: same_session_def)

lemma same_session_refl: "same_session a a"
  by (simp add: same_session_def)

lemma while_loop_goes_on:
  assumes "\<forall>j<k. goes_on (read_ret E (n_read w + j))"
  shows "\<exists>w'. while_loop E (k + m) w = while_loop E m w' \<and> same_session w w' \<and>
           n_read w' = n_read w + k \<and> (\<exists>out. stdout w' = stdout w @ out)"
  using assms
proof (induction k arbitrary: w)
  case 0
  have "while_loop E (0 + m) w = while_loop E m w \<and> same_session w w \<and>
        n_read w = n_read w + 0 \<and> stdout w = stdout w @ []"
    by (simp add: same_session_refl)
  then show ?case by blast
next
  case (Suc k)
  from Suc.prems have "goes_on (read_ret E (n_read w))" by force
  from loop_body_goes_on [OF this] obtain w1 out1 where
    b: "loop_body E w = Returns False w1" and s1: "same_session w w1" and
    n1: "n_read w1 = n_read w + 1" and o1: "stdout w1 = stdout w @ out1" by blast
  have "\<forall>j<k. goes_on (read_ret E (n_read w1 + j))"
  proof (intro allI impI)
    fix j assume "j < k"
    then have "Suc j < Suc k" by simp
    with Suc.prems have "goes_on (read_ret E (n_read w + Suc j))" by blast
    then show "goes_on (read_ret E (n_read w1 + j))" by (simp add: n1)
  qed
  from Suc.IH [OF this] obtain w' out where
    l: "while_loop E (k + m) w1 = while_loop E m w'" and s2: "same_session w1 w'" and
    n2: "n_read w' = n_read w1 + k" and o2: "stdout w' = stdout w1 @ out" by blast
  have "while_loop E (Suc k + m) w = while_loop E m w'" using b l by simp
  moreover have "same_session w w'" using s1 s2 by (rule same_session_trans)
  moreover have "n_read w' = n_read w + Suc k" using n1 n2 by simp
  moreover have "stdout w' = stdout w @ (out1 @ out)" using o1 o2 by simp
  ultimately show ?case by blast
qed

lemma c_exit_registered:
  assumes "handlers w = [DisableRawMode]"
  shows "c_exit E st w =
     (case tcsetattr_ret E (n_tcsetattr w) of
        None \<Rightarrow> (st, w\<lparr>handlers := [], n_tcsetattr := n_tcsetattr w + 1, tty := orig_termios w\<rparr>)
      | Some e \<Rightarrow> (1, w\<lparr>handlers := [], n_tcsetattr := n_tcsetattr w + 1, errno := e,
           stderr := stderr w @ ''tcsetattr: '' @ strerror E e @ [CHR 0x0A]\<rparr>))"
  using assms
  by (simp add: c_exit_def disableRawMode_def tcsetattr_def die_def perror_def Let_def
      split: option.splits)

lemma enableRawMode_ok:
  assumes "tcgetattr_ret E (n_tcgetattr w) = None"
  shows "enableRawMode E w =
    Returns () (w\<lparr>n_tcgetattr := n_tcgetattr w + 1, n_tcsetattr := n_tcsetattr w + 1,
       orig_termios := tty w, handlers := DisableRawMode # handlers w,
       tty := (case tcsetattr_ret E (n_tcsetattr w) of None \<Rightarrow> raw_termios (tty w) | Some e \<Rightarrow> tty w),
       errno := (case tcsetattr_ret E (n_tcsetattr w) of None \<Rightarrow> errno w | Some e \<Rightarrow> e)\<rparr>)"
  using assms
  by (simp add: enableRawMode_def tcgetattr_def tcsetattr_def atexit_def Let_def split: option.splits)

lemma enableRawMode_fail:
  assumes "tcgetattr_ret E (n_tcgetattr w) = Some e"
  shows "enableRawMode E w =
    Exits 1 (w\<lparr>n_tcgetattr := n_tcgetattr w + 1, errno := e,
       stderr := stderr w @ ''tcsgetattr: '' @ strerror E e @ [CHR 0x0A]\<rparr>)"
  using assms
  by (simp add: enableRawMode_def tcgetattr_def die_def perror_def Let_def)

lemma disableRawMode_ok:
  assumes "tcsetattr_ret E (n_tcsetattr w) = None"
  shows "disableRawMode E w = Returns () (w\<lparr>n_tcsetattr := n_tcsetattr w + 1, tty := orig_termios w\<rparr>)"
  using assms by (simp add: disableRawMode_def tcsetattr_def Let_def)

lemma disableRawMode_fail:
  assumes "tcsetattr_ret E (n_tcsetattr w) = Some e"
  shows "disableRawMode E w = Exits 1 (w\<lparr>n_tcsetattr := n_tcsetattr w + 1, errno := e,
     stderr := stderr w @ ''tcsetattr: '' @ strerror E e @ [CHR 0x0A]\<rparr>)"
  using assms by (simp add: disableRawMode_def tcsetattr_def die_def perror_def Let_def)

lemma same_device_refl: "same_device a a"
  by (simp add: same_device_def)

lemma same_device_trans: "same_device a b \<Longrightarrow> same_device b c \<Longrightarrow> same_device a c"
  by (simp add: same_device_def)

lemma loop_body_same_device: "same_device w (world_of (loop_body E w))"
proof (cases "read_ret E (n_read w)")
  case (RByte b)
  then show ?thesis by (simp add: loop_body_byte same_device_def)
next
  case RNone
  then show ?thesis by (simp add: loop_body_none same_device_def)
next
  case (RErr e)
  show ?thesis
  proof (cases "e = EAGAIN")
    case True
    with RErr show ?thesis by (simp add: loop_body_eagain same_device_def)
  next
    case False
    with RErr show ?thesis by (simp add: loop_body_fatal same_device_def)
  qed
qed

lemma while_loop_same_device: "same_device w (loop_world (while_loop E n w))"
proof (induction n arbitrary: w)
  case 0
  show ?case by (simp add: same_device_refl)
next
  case (Suc n)
  have b: "same_device w (world_of (loop_body E w))" by (rule loop_body_same_device)
  show ?case
  proof (cases "loop_body E w")
    case (Exits st w')
    then show ?thesis using b by simp
  next
    case (Returns brk w')
    show ?thesis
    proof (cases brk)
      case True
      then show ?thesis using b Returns by simp
    next
      case False
      have "same_device w' (loop_world (while_loop E n w'))" by (rule Suc.IH)
      moreover have "same_device w w'" using b Returns by simp
      ultimately show ?thesis using Returns False by (simp add: same_device_trans)
    qed
  qed
qed

text \<open>The state in which the loop starts, when \<^verbatim>\<open>tcgetattr\<close> succeeds.\<close>

lemma enter_from_start:
  assumes "tcgetattr_ret E 0 = None"
  shows "\<exists>w1. enableRawMode E (init_world dev) = Returns () w1 \<and>
           handlers w1 = [DisableRawMode] \<and> orig_termios w1 = dev \<and>
           n_tcgetattr w1 = 1 \<and> n_tcsetattr w1 = 1 \<and> n_read w1 = 0 \<and>
           stdout w1 = [] \<and> stderr w1 = [] \<and>
           tty w1 = (case tcsetattr_ret E 0 of None \<Rightarrow> raw_termios dev | Some e \<Rightarrow> dev)"
proof -
  have "tcgetattr_ret E (n_tcgetattr (init_world dev)) = None"
    using assms by (simp add: init_world_def)
  then show ?thesis
    unfolding enableRawMode_ok [OF \<open>tcgetattr_ret E (n_tcgetattr (init_world dev)) = None\<close>]
    by (cases "tcsetattr_ret E 0") (simp_all add: init_world_def)
qed

lemma process_unfold:
  assumes "enableRawMode E (init_world dev) = Returns () w1"
  shows "process E n dev =
     (case while_loop E n w1 of
        Running w' \<Rightarrow> Running w'
      | Done (Exits st w') \<Rightarrow> Done (c_exit E st w')
      | Done (Returns u w') \<Rightarrow> Done (c_exit E 0 w'))"
  using assms
  by (simp add: process_def main_def split: fuelled.splits result.splits)

lemma main_unfold:
  assumes "enableRawMode E (init_world dev) = Returns () w1"
  shows "main E n (init_world dev) =
     (case while_loop E n w1 of
        Running w' \<Rightarrow> Running w'
      | Done (Exits st w') \<Rightarrow> Done (Exits st w')
      | Done (Returns u w') \<Rightarrow> Done (Returns 0 w'))"
  using assms by (simp add: main_def)

lemma run_handlers_orig: "orig_termios (snd (run_handlers E hs st w)) = orig_termios w"
proof (induction hs arbitrary: st w)
  case Nil
  show ?case by simp
next
  case (Cons h hs)
  have d: "orig_termios (world_of (disableRawMode E w)) = orig_termios w"
    by (cases "tcsetattr_ret E (n_tcsetattr w)") (simp_all add: disableRawMode_ok disableRawMode_fail)
  show ?case
  proof (cases h)
    case DisableRawMode
    show ?thesis
    proof (cases "disableRawMode E w")
      case (Returns u w')
      then show ?thesis using d DisableRawMode Cons.IH [of st w'] by simp
    next
      case (Exits st' w')
      then show ?thesis using d DisableRawMode Cons.IH [of st' w'] by simp
    qed
  qed
qed

lemma and_not_idem: "((x::32 word) AND NOT m) AND NOT m = x AND NOT m"
  by (simp add: bit_eq_iff bit_simps)

lemma cleared_of_five:
  "((x::32 word) AND NOT (a OR b OR c OR d OR e)) AND a = 0"
  "((x::32 word) AND NOT (a OR b OR c OR d OR e)) AND b = 0"
  "((x::32 word) AND NOT (a OR b OR c OR d OR e)) AND c = 0"
  "((x::32 word) AND NOT (a OR b OR c OR d OR e)) AND d = 0"
  "((x::32 word) AND NOT (a OR b OR c OR d OR e)) AND e = 0"
  by (auto simp add: bit_eq_iff bit_simps)

lemma cleared_of_four:
  "((x::32 word) AND NOT (a OR b OR c OR d)) AND a = 0"
  "((x::32 word) AND NOT (a OR b OR c OR d)) AND b = 0"
  "((x::32 word) AND NOT (a OR b OR c OR d)) AND c = 0"
  "((x::32 word) AND NOT (a OR b OR c OR d)) AND d = 0"
  by (auto simp add: bit_eq_iff bit_simps)

lemma cleared_of_one:
  "((x::32 word) AND NOT a) AND a = 0"
  "(x OR a) AND a = a"
  "(x OR a) AND NOT a = x AND NOT a"
  by (auto simp add: bit_eq_iff bit_simps)

lemma length_cooked: "length (c_cc cooked) = NCCS"
  by (simp add: cooked_def NCCS_def)

lemma keys_cases: "keys rs i = RNone \<or> keys rs i \<in> set rs"
  by (simp add: keys_def)

lemma loop_body_q:
  assumes "read_ret E (n_read w) = RByte CHR ''q''"
  shows "loop_body E w = Returns True
     (w\<lparr>n_read := n_read w + 1,
        stdout := stdout w @ ''113 ('' @ [CHR 0x27] @ ''q'' @ [CHR 0x27] @ '')''
          @ [CHR 0x0D, CHR 0x0A]\<rparr>)"
proof -
  have v: "char_to_int E CHR ''q'' = 113" by (simp add: char_to_int_def)
  have d: "dec 113 = ''113''" by code_simp
  show ?thesis unfolding loop_body_byte [OF assms] v d by simp
qed

lemma while_loop_q_at:
  assumes "\<forall>j<k. goes_on (read_ret E (n_read w + j))"
    and "read_ret E (n_read w + k) = RByte CHR ''q''" and "k < n"
  shows "\<exists>w' out. while_loop E n w = Done (Returns () w') \<and> same_session w w' \<and>
           n_read w' = n_read w + Suc k \<and>
           stdout w' = stdout w @ out @ ''113 ('' @ [CHR 0x27] @ ''q'' @ [CHR 0x27] @ '')''
             @ [CHR 0x0D, CHR 0x0A]"
proof -
  from \<open>k < n\<close> obtain m where "n = Suc (k + m)" by (auto dest: less_imp_Suc_add)
  then have n: "n = k + Suc m" by simp
  from while_loop_goes_on [OF assms(1), of "Suc m"] obtain w1 out where
    l: "while_loop E (k + Suc m) w = while_loop E (Suc m) w1" and s: "same_session w w1" and
    r: "n_read w1 = n_read w + k" and o: "stdout w1 = stdout w @ out" by blast
  have q: "read_ret E (n_read w1) = RByte CHR ''q''" using assms(2) r by simp
  let ?w' = "w1\<lparr>n_read := n_read w1 + 1,
        stdout := stdout w1 @ ''113 ('' @ [CHR 0x27] @ ''q'' @ [CHR 0x27] @ '')''
          @ [CHR 0x0D, CHR 0x0A]\<rparr>"
  have a: "while_loop E n w = Done (Returns () ?w')"
    using l n by (simp add: loop_body_q [OF q])
  have b: "same_session w ?w'" using s by (simp add: same_session_def)
  have c: "n_read ?w' = n_read w + Suc k" using r by simp
  have d: "stdout ?w' = stdout w @ out @ ''113 ('' @ [CHR 0x27] @ ''q'' @ [CHR 0x27] @ '')''
             @ [CHR 0x0D, CHR 0x0A]" using o by simp
  show ?thesis
    by (rule exI [of _ ?w'], rule exI [of _ out]) (intro conjI a b c d)
qed

lemma while_loop_fatal_at:
  assumes "\<forall>j<k. goes_on (read_ret E (n_read w + j))"
    and "read_ret E (n_read w + k) = RErr e" and "e \<noteq> EAGAIN" and "k < n"
  shows "\<exists>w'. while_loop E n w = Done (Exits 1 w') \<and> same_device w w' \<and>
           n_read w' = n_read w + Suc k \<and>
           stderr w' = stderr w @ ''read: '' @ strerror E e @ [CHR 0x0A]"
proof -
  from \<open>k < n\<close> obtain m where "n = Suc (k + m)" by (auto dest: less_imp_Suc_add)
  then have n: "n = k + Suc m" by simp
  from while_loop_goes_on [OF assms(1), of "Suc m"] obtain w1 out where
    l: "while_loop E (k + Suc m) w = while_loop E (Suc m) w1" and s: "same_session w w1" and
    r: "n_read w1 = n_read w + k" by blast
  have f: "read_ret E (n_read w1) = RErr e" using assms(2) r by simp
  let ?w' = "w1\<lparr>n_read := n_read w1 + 1, errno := e,
        stderr := stderr w1 @ ''read: '' @ strerror E e @ [CHR 0x0A]\<rparr>"
  have "while_loop E n w = Done (Exits 1 ?w')"
    using l n by (simp add: loop_body_fatal [OF f assms(3)])
  moreover have "same_device w ?w'" using s by (simp add: same_session_def same_device_def)
  moreover have "n_read ?w' = n_read w + Suc k" using r by simp
  moreover have "stderr ?w' = stderr w @ ''read: '' @ strerror E e @ [CHR 0x0A]"
    using s by (simp add: same_session_def)
  ultimately show ?thesis by blast
qed

lemma c_exit_orig: "orig_termios (snd (c_exit E st w)) = orig_termios w"
  by (simp add: c_exit_def run_handlers_orig)

lemma disableRawMode_orig: "orig_termios (world_of (disableRawMode E w)) = orig_termios w"
  by (cases "tcsetattr_ret E (n_tcsetattr w)")
    (simp_all add: disableRawMode_ok disableRawMode_fail)

text \<open>
  However the loop ends, \<^verbatim>\<open>exit\<close> starts from a state with
  \<^verbatim>\<open>disableRawMode\<close> registered, one \<^verbatim>\<open>tcsetattr\<close> made, and the
  baseline in \<^verbatim>\<open>orig_termios\<close>.
\<close>

lemma process_reached:
  assumes g: "tcgetattr_ret E 0 = None"
  shows "\<exists>w2. handlers w2 = [DisableRawMode] \<and> n_tcsetattr w2 = 1 \<and> orig_termios w2 = dev \<and>
           tty w2 = (case tcsetattr_ret E 0 of None \<Rightarrow> raw_termios dev | Some e \<Rightarrow> dev) \<and>
           (process E n dev = Running w2 \<or> (\<exists>st. process E n dev = Done (c_exit E st w2)))"
proof -
  from enter_from_start [OF g, of dev] obtain w1 where
    en: "enableRawMode E (init_world dev) = Returns () w1" and
    w1: "handlers w1 = [DisableRawMode]" "n_tcsetattr w1 = 1" "orig_termios w1 = dev"
      "tty w1 = (case tcsetattr_ret E 0 of None \<Rightarrow> raw_termios dev | Some e \<Rightarrow> dev)"
    by blast
  have d: "same_device w1 (loop_world (while_loop E n w1))"
    by (rule while_loop_same_device)
  have k: "handlers w2 = [DisableRawMode] \<and> n_tcsetattr w2 = 1 \<and> orig_termios w2 = dev \<and>
           tty w2 = (case tcsetattr_ret E 0 of None \<Rightarrow> raw_termios dev | Some e \<Rightarrow> dev)"
    if "same_device w1 w2" for w2
    using that w1 by (simp add: same_device_def)
  show ?thesis
  proof (cases "while_loop E n w1")
    case (Running w2)
    then have "process E n dev = Running w2" by (simp add: process_unfold [OF en])
    moreover have "same_device w1 w2" using d Running by simp
    ultimately show ?thesis using k by blast
  next
    case (Done r)
    show ?thesis
    proof (cases r)
      case (Returns u w2)
      then have "process E n dev = Done (c_exit E 0 w2)"
        using Done by (simp add: process_unfold [OF en])
      moreover have "same_device w1 w2" using d Done Returns by simp
      ultimately show ?thesis using k by blast
    next
      case (Exits st w2)
      then have "process E n dev = Done (c_exit E st w2)"
        using Done by (simp add: process_unfold [OF en])
      moreover have "same_device w1 w2" using d Done Exits by simp
      ultimately show ?thesis using k by blast
    qed
  qed
qed

lemma process_no_tty:
  assumes "tcgetattr_ret E 0 = Some e"
  shows "process E n dev = Done (1, (init_world dev)\<lparr>n_tcgetattr := 1, errno := e,
     stderr := ''tcsgetattr: '' @ strerror E e @ [CHR 0x0A]\<rparr>)"
proof -
  have "tcgetattr_ret E (n_tcgetattr (init_world dev)) = Some e"
    using assms by (simp add: init_world_def)
  from enableRawMode_fail [OF this] show ?thesis
    by (simp add: process_def main_def c_exit_def init_world_def)
qed

section \<open>The claims\<close>

subsection \<open>Restoration at exit\<close>

text \<open>
  C1, as the code has it. Whichever way the process ends, the device is left with the
  attributes it had at entry unless the \<^verbatim>\<open>tcsetattr\<close> of
  \<^verbatim>\<open>disableRawMode\<close> fails. Once \<^verbatim>\<open>disableRawMode\<close> is
  registered (that is, once \<^verbatim>\<open>tcgetattr\<close> has succeeded), after the byte
  \<^verbatim>\<open>q\<close> as well as through \<^verbatim>\<open>die\<close> on a read error,
  \<^verbatim>\<open>disableRawMode\<close> has run once at exit with the baseline that
  \<^verbatim>\<open>enableRawMode\<close> captured: when its \<^verbatim>\<open>tcsetattr\<close> succeeds
  the device is left with the baseline attributes; when it fails the process ends with
  status 1 and the device keeps what it had, which is the raw attributes if they were
  applied. When \<^verbatim>\<open>tcgetattr\<close> fails nothing is registered, the process ends
  with status 1 and the device was never changed.
\<close>

theorem restored_at_exit:
  assumes "process E n dev = Done (st, w')"
  shows "(tcgetattr_ret E 0 = None \<longrightarrow>
          handlers w' = [] \<and> n_tcsetattr w' = 2 \<and> orig_termios w' = dev
          \<and> (tcsetattr_ret E 1 = None \<longrightarrow> tty w' = dev)
          \<and> (tcsetattr_ret E 1 \<noteq> None \<longrightarrow> st = 1 \<and>
               tty w' = (case tcsetattr_ret E 0 of None \<Rightarrow> raw_termios dev | Some e \<Rightarrow> dev)))
       \<and> (tcgetattr_ret E 0 \<noteq> None \<longrightarrow> st = 1 \<and> n_tcsetattr w' = 0 \<and> tty w' = dev)"
proof (intro conjI impI)
  assume g: "tcgetattr_ret E 0 = None"
  from process_reached [OF g, of dev n] assms obtain w2 st0 where
    w2: "handlers w2 = [DisableRawMode]" "n_tcsetattr w2 = 1" "orig_termios w2 = dev"
      "tty w2 = (case tcsetattr_ret E 0 of None \<Rightarrow> raw_termios dev | Some e \<Rightarrow> dev)"
    and p: "process E n dev = Done (c_exit E st0 w2)" by auto
  have x: "c_exit E st0 w2 = (st, w')" using p assms by simp
  have all: "handlers w' = [] \<and> n_tcsetattr w' = 2 \<and> orig_termios w' = dev
          \<and> (tcsetattr_ret E 1 = None \<longrightarrow> tty w' = dev)
          \<and> (tcsetattr_ret E 1 \<noteq> None \<longrightarrow> st = 1 \<and>
               tty w' = (case tcsetattr_ret E 0 of None \<Rightarrow> raw_termios dev | Some e \<Rightarrow> dev))"
  proof (cases "tcsetattr_ret E 1")
    case None
    then show ?thesis
      using x w2 unfolding c_exit_registered [OF w2(1)] by auto
  next
    case (Some e)
    then show ?thesis
      using x w2 unfolding c_exit_registered [OF w2(1)] by auto
  qed
  from all show "handlers w' = []" by blast
  from all show "n_tcsetattr w' = 2" by blast
  from all show "orig_termios w' = dev" by blast
  from all show "tty w' = dev" if "tcsetattr_ret E 1 = None" using that by blast
  from all show "st = 1" if "tcsetattr_ret E 1 \<noteq> None" using that by blast
  from all show "tty w' = (case tcsetattr_ret E 0 of None \<Rightarrow> raw_termios dev | Some e \<Rightarrow> dev)"
    if "tcsetattr_ret E 1 \<noteq> None" using that by blast
next
  assume "tcgetattr_ret E 0 \<noteq> None"
  then obtain e where f: "tcgetattr_ret E 0 = Some e" by auto
  have w: "st = 1 \<and> n_tcsetattr w' = 0 \<and> tty w' = dev"
    using assms unfolding process_no_tty [OF f] by (auto simp add: init_world_def)
  from w show "st = 1" by blast
  from w show "n_tcsetattr w' = 0" by blast
  from w show "tty w' = dev" by blast
qed

theorem restored_at_exit_witness:
  "process (sample_env True None None None [RByte CHR ''a'', RErr 5]) 4 cooked
     = Done (1, (init_world cooked)\<lparr>orig_termios := cooked, errno := 5,
         n_tcgetattr := 1, n_tcsetattr := 2, n_read := 2,
         stdout := ''97 ('' @ [CHR 0x27] @ ''a'' @ [CHR 0x27] @ '')'' @ [CHR 0x0D, CHR 0x0A],
         stderr := ''read: Input/output error'' @ [CHR 0x0A]\<rparr>)
   \<and> tty (world_of (enableRawMode (sample_env True None None None [RByte CHR ''a'', RErr 5])
        (init_world cooked))) = raw_termios cooked
   \<and> tty (final (process (sample_env True None None None [RByte CHR ''a'', RErr 5]) 4 cooked))
       = cooked
   \<and> process (sample_env True (Some 25) None None []) 4 cooked
     = Done (1, (init_world cooked)\<lparr>errno := 25, n_tcgetattr := 1,
         stderr := ''tcsgetattr: Inappropriate ioctl for device'' @ [CHR 0x0A]\<rparr>)"
proof -
  let ?E = "sample_env True None None None [RByte CHR ''a'', RErr 5]"
  let ?F = "sample_env True (Some 25) None None []"
  have g: "tcgetattr_ret ?E 0 = None" and s: "tcsetattr_ret ?E 1 = None"
    and f: "tcgetattr_ret ?F 0 \<noteq> None"
    by (simp_all add: sample_env_def)
  have p: "process ?E 4 cooked
     = Done (1, (init_world cooked)\<lparr>orig_termios := cooked, errno := 5,
         n_tcgetattr := 1, n_tcsetattr := 2, n_read := 2,
         stdout := ''97 ('' @ [CHR 0x27] @ ''a'' @ [CHR 0x27] @ '')'' @ [CHR 0x0D, CHR 0x0A],
         stderr := ''read: Input/output error'' @ [CHR 0x0A]\<rparr>)"
    by code_simp
  have q: "process ?F 4 cooked
     = Done (1, (init_world cooked)\<lparr>errno := 25, n_tcgetattr := 1,
         stderr := ''tcsgetattr: Inappropriate ioctl for device'' @ [CHR 0x0A]\<rparr>)"
    by code_simp
  have r: "tty (world_of (enableRawMode ?E (init_world cooked))) = raw_termios cooked"
    by code_simp
  from restored_at_exit [OF p] g s
  have "tty ((init_world cooked)\<lparr>orig_termios := cooked, errno := 5,
         n_tcgetattr := 1, n_tcsetattr := 2, n_read := 2,
         stdout := ''97 ('' @ [CHR 0x27] @ ''a'' @ [CHR 0x27] @ '')'' @ [CHR 0x0D, CHR 0x0A],
         stderr := ''read: Input/output error'' @ [CHR 0x0A]\<rparr>) = cooked"
    by blast
  moreover from restored_at_exit [OF q] f
  have "tty ((init_world cooked)\<lparr>errno := 25, n_tcgetattr := 1,
         stderr := ''tcsgetattr: Inappropriate ioctl for device'' @ [CHR 0x0A]\<rparr>) = cooked"
    by blast
  ultimately show ?thesis using p q r by simp
qed

theorem restored_at_exit_counterexample:
  "tcgetattr_ret (sample_env True None None (Some 5) [RErr 4]) 0 = None
   \<and> status (process (sample_env True None None (Some 5) [RErr 4]) 1 cooked) = Some 1
   \<and> orig_termios (final (process (sample_env True None None (Some 5) [RErr 4]) 1 cooked))
       = cooked
   \<and> tty (final (process (sample_env True None None (Some 5) [RErr 4]) 1 cooked))
       = raw_termios cooked
   \<and> tty (final (process (sample_env True None None (Some 5) [RErr 4]) 1 cooked)) \<noteq> cooked"
  by code_simp

subsection \<open>Round trip\<close>

text \<open>
  C2. Round trip: when \<^verbatim>\<open>enableRawMode\<close> returns and the
  \<^verbatim>\<open>disableRawMode\<close> that follows returns too, the device has the attributes
  it had just before \<^verbatim>\<open>enableRawMode\<close>, whatever they were.
\<close>

theorem enable_disable_roundtrip:
  assumes "enableRawMode E w = Returns u w1" and "disableRawMode E w1 = Returns u' w2"
  shows "tty w2 = tty w"
proof -
  have g: "tcgetattr_ret E (n_tcgetattr w) = None"
  proof (cases "tcgetattr_ret E (n_tcgetattr w)")
    case None
    then show ?thesis .
  next
    case (Some e)
    then show ?thesis using assms(1) by (simp add: enableRawMode_fail)
  qed
  have o: "orig_termios w1 = tty w"
    using assms(1) by (auto simp add: enableRawMode_ok [OF g])
  show ?thesis
  proof (cases "tcsetattr_ret E (n_tcsetattr w1)")
    case None
    then show ?thesis using assms(2) o by (auto simp add: disableRawMode_ok)
  next
    case (Some e)
    then show ?thesis using assms(2) by (simp add: disableRawMode_fail)
  qed
qed

theorem enable_disable_roundtrip_witness:
  "returned (enableRawMode (sample_env True None None None []) (init_world cooked))
   \<and> tty (world_of (enableRawMode (sample_env True None None None []) (init_world cooked)))
       = raw_termios cooked
   \<and> returned (disableRawMode (sample_env True None None None [])
       (world_of (enableRawMode (sample_env True None None None []) (init_world cooked))))
   \<and> tty (world_of (disableRawMode (sample_env True None None None [])
       (world_of (enableRawMode (sample_env True None None None []) (init_world cooked)))))
       = cooked"
proof -
  let ?E = "sample_env True None None None []"
  have g: "tcgetattr_ret ?E (n_tcgetattr (init_world cooked)) = None"
    by (simp add: sample_env_def)
  obtain w1 where e: "enableRawMode ?E (init_world cooked) = Returns () w1"
    and n1: "n_tcsetattr w1 = 1" and t1: "tty w1 = raw_termios cooked"
    using enableRawMode_ok [OF g] by (simp add: init_world_def sample_env_def)
  have s: "tcsetattr_ret ?E (n_tcsetattr w1) = None"
    using n1 by (simp add: sample_env_def)
  obtain w2 where d: "disableRawMode ?E w1 = Returns () w2"
    using disableRawMode_ok [OF s] by simp
  have "tty w2 = tty (init_world cooked)"
    using enable_disable_roundtrip [OF e d] .
  then show ?thesis using e d t1 by (simp add: init_world_def)
qed

subsection \<open>A failed apply\<close>

text \<open>
  C3. The claim: when the \<^verbatim>\<open>tcsetattr\<close> that applies the raw attributes
  fails, \<^verbatim>\<open>enableRawMode\<close> reports it through \<^verbatim>\<open>die\<close> and the
  process ends with a status other than 0. The code does not look at the value of that
  call. Here \<^verbatim>\<open>tcgetattr\<close> succeeds and the first \<^verbatim>\<open>tcsetattr\<close>
  fails with \<^verbatim>\<open>EIO\<close>: \<^verbatim>\<open>enableRawMode\<close> returns, nothing is
  written to the error stream, the terminal keeps its attributes, the loop runs, and
  after the byte \<^verbatim>\<open>q\<close> the process ends with status 0.
\<close>

theorem enableRawMode_apply_failure_unreported:
  "returned (enableRawMode (sample_env True None (Some 5) None [RByte CHR ''q''])
      (init_world cooked))
   \<and> stderr (world_of (enableRawMode (sample_env True None (Some 5) None [RByte CHR ''q''])
      (init_world cooked))) = []
   \<and> tty (world_of (enableRawMode (sample_env True None (Some 5) None [RByte CHR ''q''])
      (init_world cooked))) = cooked
   \<and> status (process (sample_env True None (Some 5) None [RByte CHR ''q'']) 1 cooked) = Some 0
   \<and> stderr (final (process (sample_env True None (Some 5) None [RByte CHR ''q'']) 1 cooked))
       = []"
  by code_simp

subsection \<open>Reads without a byte\<close>

text \<open>
  C4, as the code has it. When every read ends with no byte (the timeout, or the error
  \<^verbatim>\<open>EAGAIN\<close>), the loop is still running after any number of iterations, it
  writes nothing to the error stream, and it writes the line \<^verbatim>\<open>"0\r\n"\<close> to
  the output once per read: the variable \<^verbatim>\<open>c\<close> keeps its initial 0, which
  is printed as a control byte.
\<close>

theorem idle_loop:
  "(\<forall>i. read_ret E i = RNone \<or> read_ret E i = RErr EAGAIN) \<longrightarrow>
     (\<exists>w'. while_loop E n w = Running w' \<and>
        stdout w' = stdout w @ concat (replicate n (''0'' @ [CHR 0x0D, CHR 0x0A])) \<and>
        stderr w' = stderr w \<and> n_read w' = n_read w + n)
     \<and> (tcgetattr_ret E 0 = None \<longrightarrow>
         (\<exists>w'. process E n dev = Running w' \<and>
            stdout w' = concat (replicate n (''0'' @ [CHR 0x0D, CHR 0x0A])) \<and>
            stderr w' = [] \<and> n_read w' = n))"
proof (intro impI)
  assume idle: "\<forall>i. read_ret E i = RNone \<or> read_ret E i = RErr EAGAIN"
  have loop: "\<exists>w'. while_loop E n w = Running w' \<and>
        stdout w' = stdout w @ concat (replicate n (''0'' @ [CHR 0x0D, CHR 0x0A])) \<and>
        stderr w' = stderr w \<and> n_read w' = n_read w + n" for n w
  proof (induction n arbitrary: w)
    case 0
    show ?case by simp
  next
    case (Suc n)
    from idle have "read_ret E (n_read w) = RNone \<or> read_ret E (n_read w) = RErr EAGAIN"
      by blast
    then obtain w1 where b: "loop_body E w = Returns False w1"
      and o: "stdout w1 = stdout w @ ''0'' @ [CHR 0x0D, CHR 0x0A]"
      and e: "stderr w1 = stderr w" and r: "n_read w1 = n_read w + 1"
      by (auto simp add: loop_body_none loop_body_eagain)
    from Suc.IH [of w1] obtain w' where
      l: "while_loop E n w1 = Running w'" and
      o': "stdout w' = stdout w1 @ concat (replicate n (''0'' @ [CHR 0x0D, CHR 0x0A]))" and
      e': "stderr w' = stderr w1" and r': "n_read w' = n_read w1 + n" by blast
    have "while_loop E (Suc n) w = Running w'" using b l by simp
    moreover have "stdout w' = stdout w @ concat (replicate (Suc n) (''0'' @ [CHR 0x0D, CHR 0x0A]))"
      using o o' by simp
    moreover have "stderr w' = stderr w" using e e' by simp
    moreover have "n_read w' = n_read w + Suc n" using r r' by simp
    ultimately show ?case by blast
  qed
  have prog: "\<exists>w'. process E n dev = Running w' \<and>
            stdout w' = concat (replicate n (''0'' @ [CHR 0x0D, CHR 0x0A])) \<and>
            stderr w' = [] \<and> n_read w' = n" if g: "tcgetattr_ret E 0 = None"
  proof -
    from enter_from_start [OF g] obtain w1 where
      en: "enableRawMode E (init_world dev) = Returns () w1" and
      w1: "n_read w1 = 0" "stdout w1 = []" "stderr w1 = []" by blast
    from loop [of n w1] obtain w' where
      l: "while_loop E n w1 = Running w'" and
      o: "stdout w' = stdout w1 @ concat (replicate n (''0'' @ [CHR 0x0D, CHR 0x0A]))" and
      e: "stderr w' = stderr w1" and r: "n_read w' = n_read w1 + n" by blast
    have "process E n dev = Running w'"
      using l by (simp add: process_unfold [OF en])
    then show ?thesis using o e r w1 by simp
  qed
  from loop [of n w] prog
  show "(\<exists>w'. while_loop E n w = Running w' \<and>
        stdout w' = stdout w @ concat (replicate n (''0'' @ [CHR 0x0D, CHR 0x0A])) \<and>
        stderr w' = stderr w \<and> n_read w' = n_read w + n)
     \<and> (tcgetattr_ret E 0 = None \<longrightarrow>
         (\<exists>w'. process E n dev = Running w' \<and>
            stdout w' = concat (replicate n (''0'' @ [CHR 0x0D, CHR 0x0A])) \<and>
            stderr w' = [] \<and> n_read w' = n))"
    by blast
qed

theorem idle_loop_witness:
  "status (process (sample_env True None None None [RErr EAGAIN]) 3 cooked) = None
   \<and> stdout (final (process (sample_env True None None None [RErr EAGAIN]) 3 cooked))
      = ''0'' @ [CHR 0x0D, CHR 0x0A] @ ''0'' @ [CHR 0x0D, CHR 0x0A] @ ''0'' @ [CHR 0x0D, CHR 0x0A]
   \<and> stderr (final (process (sample_env True None None None [RErr EAGAIN]) 3 cooked)) = []"
proof -
  let ?E = "sample_env True None None None [RErr EAGAIN]"
  have idle: "\<forall>i. read_ret ?E i = RNone \<or> read_ret ?E i = RErr EAGAIN"
    using keys_cases [of "[RErr EAGAIN]"] by (simp add: sample_env_def)
  have g: "tcgetattr_ret ?E 0 = None" by (simp add: sample_env_def)
  from idle_loop [of ?E 3 "init_world cooked" cooked] idle g
  obtain w' where "process ?E 3 cooked = Running w'"
    "stdout w' = concat (replicate 3 (''0'' @ [CHR 0x0D, CHR 0x0A]))" "stderr w' = []"
    by blast
  then show ?thesis by (simp add: numeral_3_eq_3)
qed

theorem idle_loop_counterexample:
  "read_ret (sample_env True None None None []) 0 = RNone
   \<and> status (process (sample_env True None None None []) 1 cooked) = None
   \<and> stdout (final (process (sample_env True None None None []) 1 cooked))
      = ''0'' @ [CHR 0x0D, CHR 0x0A]"
  by code_simp

subsection \<open>The byte q\<close>

text \<open>
  C5, as the code has it. When a read delivers the byte \<^verbatim>\<open>q\<close> (0x71), the
  iteration writes exactly the line \<^verbatim>\<open>"113 ('q')\r\n"\<close> and leaves the loop.
  For the whole process: when read \<open>k\<close> is the first to deliver \<^verbatim>\<open>q\<close>
  and no read before it fails fatally, \<^verbatim>\<open>main\<close> returns 0 after
  \<open>k + 1\<close> reads with that line last on the output and nothing on the error
  stream. The process then ends with status 0 and an empty error stream when
  \<^verbatim>\<open>disableRawMode\<close> restores the terminal at exit; when that
  \<^verbatim>\<open>tcsetattr\<close> fails it ends with status 1, and the error stream holds
  the one line \<^verbatim>\<open>tcsetattr: \<close> followed by the text for the error.
\<close>

theorem q_leaves_loop:
  "(read_ret E (n_read w) = RByte CHR ''q'' \<longrightarrow>
      loop_body E w = Returns True
        (w\<lparr>n_read := n_read w + 1,
           stdout := stdout w @ ''113 ('' @ [CHR 0x27] @ ''q'' @ [CHR 0x27] @ '')''
             @ [CHR 0x0D, CHR 0x0A]\<rparr>))
   \<and> (tcgetattr_ret E 0 = None \<and> (\<forall>j<k. goes_on (read_ret E j)) \<and>
        read_ret E k = RByte CHR ''q'' \<and> k < n \<longrightarrow>
        (\<exists>w' w'' out.
           main E n (init_world dev) = Done (Returns 0 w') \<and> n_read w' = Suc k \<and>
           stdout w' = out @ ''113 ('' @ [CHR 0x27] @ ''q'' @ [CHR 0x27] @ '')''
             @ [CHR 0x0D, CHR 0x0A] \<and>
           stderr w' = [] \<and>
           process E n dev = Done (if tcsetattr_ret E 1 = None then 0 else 1, w'') \<and>
           stdout w'' = stdout w' \<and> n_read w'' = n_read w' \<and>
           stderr w'' = (case tcsetattr_ret E 1 of None \<Rightarrow> []
                         | Some e' \<Rightarrow> ''tcsetattr: '' @ strerror E e' @ [CHR 0x0A])))"
proof (intro conjI impI)
  assume "read_ret E (n_read w) = RByte CHR ''q''"
  then show "loop_body E w = Returns True
        (w\<lparr>n_read := n_read w + 1,
           stdout := stdout w @ ''113 ('' @ [CHR 0x27] @ ''q'' @ [CHR 0x27] @ '')''
             @ [CHR 0x0D, CHR 0x0A]\<rparr>)"
    by (rule loop_body_q)
next
  assume a: "tcgetattr_ret E 0 = None \<and> (\<forall>j<k. goes_on (read_ret E j)) \<and>
        read_ret E k = RByte CHR ''q'' \<and> k < n"
  from a enter_from_start [of E dev] obtain w1 where
    en: "enableRawMode E (init_world dev) = Returns () w1" and
    w1: "handlers w1 = [DisableRawMode]" "n_tcsetattr w1 = 1" "n_read w1 = 0" "stdout w1 = []"
      "stderr w1 = []"
    by blast
  have "\<forall>j<k. goes_on (read_ret E (n_read w1 + j))"
    "read_ret E (n_read w1 + k) = RByte CHR ''q''" "k < n"
    using a w1 by simp_all
  from while_loop_q_at [OF this] obtain w2 out where
    l: "while_loop E n w1 = Done (Returns () w2)" and s: "same_session w1 w2" and
    r: "n_read w2 = n_read w1 + Suc k" and
    o: "stdout w2 = stdout w1 @ out @ ''113 ('' @ [CHR 0x27] @ ''q'' @ [CHR 0x27] @ '')''
             @ [CHR 0x0D, CHR 0x0A]" by blast
  have h: "handlers w2 = [DisableRawMode]" and c: "n_tcsetattr w2 = 1"
    and e': "stderr w2 = []"
    using s w1 by (simp_all add: same_session_def)
  have m: "main E n (init_world dev) = Done (Returns 0 w2)"
    using l by (simp add: main_unfold [OF en])
  have p: "process E n dev = Done (c_exit E 0 w2)"
    using l by (simp add: process_unfold [OF en])
  have r': "n_read w2 = Suc k" using r w1 by simp
  have o': "stdout w2 = out @ ''113 ('' @ [CHR 0x27] @ ''q'' @ [CHR 0x27] @ '')''
             @ [CHR 0x0D, CHR 0x0A]" using o w1 by simp
  have x: "\<exists>w''. c_exit E 0 w2 = (if tcsetattr_ret E 1 = None then 0 else 1, w'') \<and>
           stdout w'' = stdout w2 \<and> n_read w'' = n_read w2 \<and>
           stderr w'' = (case tcsetattr_ret E 1 of None \<Rightarrow> []
                         | Some e' \<Rightarrow> ''tcsetattr: '' @ strerror E e' @ [CHR 0x0A])"
    unfolding c_exit_registered [OF h] c using e' by (cases "tcsetattr_ret E 1") simp_all
  then obtain w'' where x': "c_exit E 0 w2 = (if tcsetattr_ret E 1 = None then 0 else 1, w'')"
    "stdout w'' = stdout w2" "n_read w'' = n_read w2"
    "stderr w'' = (case tcsetattr_ret E 1 of None \<Rightarrow> []
                   | Some e' \<Rightarrow> ''tcsetattr: '' @ strerror E e' @ [CHR 0x0A])" by blast
  have p': "process E n dev = Done (if tcsetattr_ret E 1 = None then 0 else 1, w'')"
    using p x'(1) by simp
  show "\<exists>w' w'' out.
           main E n (init_world dev) = Done (Returns 0 w') \<and> n_read w' = Suc k \<and>
           stdout w' = out @ ''113 ('' @ [CHR 0x27] @ ''q'' @ [CHR 0x27] @ '')''
             @ [CHR 0x0D, CHR 0x0A] \<and>
           stderr w' = [] \<and>
           process E n dev = Done (if tcsetattr_ret E 1 = None then 0 else 1, w'') \<and>
           stdout w'' = stdout w' \<and> n_read w'' = n_read w' \<and>
           stderr w'' = (case tcsetattr_ret E 1 of None \<Rightarrow> []
                         | Some e' \<Rightarrow> ''tcsetattr: '' @ strerror E e' @ [CHR 0x0A])"
    by (rule exI [of _ w2], rule exI [of _ w''], rule exI [of _ out])
      (intro conjI m r' o' e' p' x'(2) x'(3) x'(4))
qed

theorem q_leaves_loop_witness:
  "process (sample_env True None None None [RByte CHR ''a'', RNone, RByte CHR ''q'']) 5 cooked
     = Done (0, (init_world cooked)\<lparr>orig_termios := cooked,
         n_tcgetattr := 1, n_tcsetattr := 2, n_read := 3,
         stdout := ''97 ('' @ [CHR 0x27] @ ''a'' @ [CHR 0x27] @ '')'' @ [CHR 0x0D, CHR 0x0A]
           @ ''0'' @ [CHR 0x0D, CHR 0x0A]
           @ ''113 ('' @ [CHR 0x27] @ ''q'' @ [CHR 0x27] @ '')'' @ [CHR 0x0D, CHR 0x0A]\<rparr>)
   \<and> status (process (sample_env False None None (Some 4) [RNone, RByte CHR ''q'']) 2 cooked)
       = Some 1
   \<and> stderr (final (process (sample_env False None None (Some 4) [RNone, RByte CHR ''q''])
         2 cooked))
       = ''tcsetattr: Unknown error'' @ [CHR 0x0A]"
proof -
  let ?E = "sample_env True None None None [RByte CHR ''a'', RNone, RByte CHR ''q'']"
  let ?F = "sample_env False None None (Some 4) [RNone, RByte CHR ''q'']"
  have hyp: "tcgetattr_ret ?E 0 = None \<and> (\<forall>j<2. goes_on (read_ret ?E j)) \<and>
        read_ret ?E 2 = RByte CHR ''q'' \<and> (2::nat) < 5"
    by (simp add: sample_env_def keys_def less_Suc_eq numeral_2_eq_2)
  have s1: "tcsetattr_ret ?E 1 = None" by (simp add: sample_env_def)
  from q_leaves_loop [of ?E "init_world cooked" 2 5 cooked] hyp
  obtain w'' where p: "process ?E 5 cooked = Done (if tcsetattr_ret ?E 1 = None then 0 else 1, w'')"
    by blast
  have "final (process ?E 5 cooked) = (init_world cooked)\<lparr>orig_termios := cooked,
         n_tcgetattr := 1, n_tcsetattr := 2, n_read := 3,
         stdout := ''97 ('' @ [CHR 0x27] @ ''a'' @ [CHR 0x27] @ '')'' @ [CHR 0x0D, CHR 0x0A]
           @ ''0'' @ [CHR 0x0D, CHR 0x0A]
           @ ''113 ('' @ [CHR 0x27] @ ''q'' @ [CHR 0x27] @ '')'' @ [CHR 0x0D, CHR 0x0A]\<rparr>"
    by code_simp
  then have first: "process ?E 5 cooked
     = Done (0, (init_world cooked)\<lparr>orig_termios := cooked,
         n_tcgetattr := 1, n_tcsetattr := 2, n_read := 3,
         stdout := ''97 ('' @ [CHR 0x27] @ ''a'' @ [CHR 0x27] @ '')'' @ [CHR 0x0D, CHR 0x0A]
           @ ''0'' @ [CHR 0x0D, CHR 0x0A]
           @ ''113 ('' @ [CHR 0x27] @ ''q'' @ [CHR 0x27] @ '')'' @ [CHR 0x0D, CHR 0x0A]\<rparr>)"
    using p s1 by simp
  have hypF: "tcgetattr_ret ?F 0 = None \<and> (\<forall>j<1. goes_on (read_ret ?F j)) \<and>
        read_ret ?F 1 = RByte CHR ''q'' \<and> (1::nat) < 2"
    by (simp add: sample_env_def keys_def)
  have s1F: "tcsetattr_ret ?F 1 = Some 4" and m: "strerror ?F 4 = ''Unknown error''"
    by (simp_all add: sample_env_def messages_def)
  from q_leaves_loop [of ?F "init_world cooked" 1 2 cooked] hypF
  obtain v'' where "process ?F 2 cooked = Done (if tcsetattr_ret ?F 1 = None then 0 else 1, v'')"
    and "stderr v'' = (case tcsetattr_ret ?F 1 of None \<Rightarrow> []
                       | Some e' \<Rightarrow> ''tcsetattr: '' @ strerror ?F e' @ [CHR 0x0A])"
    by blast
  then have second: "status (process ?F 2 cooked) = Some 1
      \<and> stderr (final (process ?F 2 cooked)) = ''tcsetattr: Unknown error'' @ [CHR 0x0A]"
    using s1F m by simp
  from first second show ?thesis by blast
qed

theorem q_leaves_loop_counterexample:
  "read_ret (sample_env True None None (Some 5) [RByte CHR ''q'']) 0 = RByte CHR ''q''
   \<and> stdout (final (process (sample_env True None None (Some 5) [RByte CHR ''q'']) 1 cooked))
       = ''113 ('' @ [CHR 0x27] @ ''q'' @ [CHR 0x27] @ '')'' @ [CHR 0x0D, CHR 0x0A]
   \<and> stderr (final (process (sample_env True None None (Some 5) [RByte CHR ''q'']) 1 cooked))
       = ''tcsetattr: Input/output error'' @ [CHR 0x0A]
   \<and> status (process (sample_env True None None (Some 5) [RByte CHR ''q'']) 1 cooked) = Some 1"
  by code_simp

subsection \<open>The line for a byte\<close>

text \<open>
  C6, as the code has it. For every byte \<open>b\<close> that a read delivers, one line is
  written. When \<open>b\<close> is a control byte (0 to 31, or 127) the line is the decimal value
  of \<open>b\<close>, carriage return, newline. Otherwise it is a number, a space, the byte
  between single quotes in parentheses, carriage return, newline, where the number is the
  value of \<open>b\<close> as a \<^verbatim>\<open>char\<close>: \<open>b\<close> itself below 128 or where
  \<^verbatim>\<open>char\<close> is unsigned, and \<open>b - 256\<close> from 128 on where
  \<^verbatim>\<open>char\<close> is signed. The iteration is the last exactly when \<open>b\<close> is
  \<^verbatim>\<open>q\<close>.
\<close>

theorem byte_line:
  assumes "read_ret E (n_read w) = RByte b"
  shows "loop_body E w = Returns (b = CHR ''q'')
     (w\<lparr>n_read := n_read w + 1,
        stdout := stdout w @
          (if (of_char b :: nat) < 32 \<or> (of_char b :: nat) = 127
           then dec (int (of_char b)) @ [CHR 0x0D, CHR 0x0A]
           else dec (if char_signed E \<and> 128 \<le> (of_char b :: nat)
                     then int (of_char b) - 256 else int (of_char b))
                @ '' ('' @ [CHR 0x27, b, CHR 0x27] @ '')'' @ [CHR 0x0D, CHR 0x0A])\<rparr>)"
proof -
  have "(of_char b :: nat) < 32 \<or> (of_char b :: nat) = 127
      \<Longrightarrow> char_to_int E b = int (of_char b)"
    by (auto simp add: char_to_int_def)
  then show ?thesis
    unfolding loop_body_byte [OF assms] by (auto simp add: char_to_int_def)
qed

theorem byte_line_witness:
  "loop_body (sample_env True None None None [RByte CHR ''A'']) (init_world cooked)
     = Returns False ((init_world cooked)\<lparr>n_read := 1,
         stdout := ''65 ('' @ [CHR 0x27] @ ''A'' @ [CHR 0x27] @ '')'' @ [CHR 0x0D, CHR 0x0A]\<rparr>)
   \<and> loop_body (sample_env True None None None [RByte (CHR 0x03)]) (init_world cooked)
     = Returns False ((init_world cooked)\<lparr>n_read := 1,
         stdout := ''3'' @ [CHR 0x0D, CHR 0x0A]\<rparr>)"
proof -
  have a: "read_ret (sample_env True None None None [RByte CHR ''A''])
      (n_read (init_world cooked)) = RByte CHR ''A''"
    by (simp add: sample_env_def keys_def init_world_def)
  have c: "read_ret (sample_env True None None None [RByte (CHR 0x03)])
      (n_read (init_world cooked)) = RByte (CHR 0x03)"
    by (simp add: sample_env_def keys_def init_world_def)
  have d: "dec 65 = ''65''" "dec 3 = ''3''" by code_simp+
  show ?thesis
    using byte_line [OF a] byte_line [OF c] d by (simp add: init_world_def)
qed

theorem byte_line_counterexample:
  "of_char (CHR 0xE9) = (233 :: nat)
   \<and> stdout (world_of (loop_body (sample_env True None None None [RByte (CHR 0xE9)])
        (init_world cooked)))
     = ''-23 ('' @ [CHR 0x27, CHR 0xE9, CHR 0x27] @ '')'' @ [CHR 0x0D, CHR 0x0A]
   \<and> stdout (world_of (loop_body (sample_env True None None None [RByte (CHR 0xE9)])
        (init_world cooked)))
     \<noteq> ''233 ('' @ [CHR 0x27, CHR 0xE9, CHR 0x27] @ '')'' @ [CHR 0x0D, CHR 0x0A]"
  by code_simp

subsection \<open>Outcomes of a read\<close>

text \<open>
  C7. A read that ends with no byte, by the timeout or by the error
  \<^verbatim>\<open>EAGAIN\<close>, never reaches \<^verbatim>\<open>die\<close>: the iteration returns, the loop
  goes round again and nothing is written to the error stream. A read that fails with
  any other error ends in \<^verbatim>\<open>die("read")\<close>: one line naming \<^verbatim>\<open>read\<close>
  and the error goes to the error stream and \<^verbatim>\<open>exit(1)\<close> is called. For the
  whole process: when the first read to fail so is read \<open>k\<close>, the process ends with
  status 1 after \<open>k + 1\<close> reads, and the error stream holds that one line about the
  read (followed by a line about \<^verbatim>\<open>tcsetattr\<close> only when restoring the
  terminal at exit fails too).
\<close>

theorem read_classification:
  "(read_ret E (n_read w) = RNone \<or> read_ret E (n_read w) = RErr EAGAIN \<longrightarrow>
      (\<exists>w'. loop_body E w = Returns False w' \<and> stderr w' = stderr w))
   \<and> (read_ret E (n_read w) = RErr e \<and> e \<noteq> EAGAIN \<longrightarrow>
        loop_body E w = Exits 1 (w\<lparr>n_read := n_read w + 1, errno := e,
          stderr := stderr w @ ''read: '' @ strerror E e @ [CHR 0x0A]\<rparr>))
   \<and> (tcgetattr_ret E 0 = None \<and> (\<forall>j<k. goes_on (read_ret E j)) \<and>
        read_ret E k = RErr e \<and> e \<noteq> EAGAIN \<and> k < n \<longrightarrow>
        (\<exists>w'. process E n dev = Done (1, w') \<and> n_read w' = Suc k \<and>
           stderr w' = ''read: '' @ strerror E e @ [CHR 0x0A]
             @ (case tcsetattr_ret E 1 of None \<Rightarrow> []
                | Some e' \<Rightarrow> ''tcsetattr: '' @ strerror E e' @ [CHR 0x0A])))"
proof (intro conjI impI)
  assume "read_ret E (n_read w) = RNone \<or> read_ret E (n_read w) = RErr EAGAIN"
  then show "\<exists>w'. loop_body E w = Returns False w' \<and> stderr w' = stderr w"
    by (auto simp add: loop_body_none loop_body_eagain)
next
  assume "read_ret E (n_read w) = RErr e \<and> e \<noteq> EAGAIN"
  then show "loop_body E w = Exits 1 (w\<lparr>n_read := n_read w + 1, errno := e,
          stderr := stderr w @ ''read: '' @ strerror E e @ [CHR 0x0A]\<rparr>)"
    by (simp add: loop_body_fatal)
next
  assume a: "tcgetattr_ret E 0 = None \<and> (\<forall>j<k. goes_on (read_ret E j)) \<and>
        read_ret E k = RErr e \<and> e \<noteq> EAGAIN \<and> k < n"
  from a enter_from_start [of E dev] obtain w1 where
    en: "enableRawMode E (init_world dev) = Returns () w1" and
    w1: "handlers w1 = [DisableRawMode]" "n_tcsetattr w1 = 1" "n_read w1 = 0" "stderr w1 = []"
    by blast
  have "\<forall>j<k. goes_on (read_ret E (n_read w1 + j))" "read_ret E (n_read w1 + k) = RErr e"
    using a w1 by simp_all
  from while_loop_fatal_at [OF this] a obtain w2 where
    l: "while_loop E n w1 = Done (Exits 1 w2)" and d: "same_device w1 w2" and
    r: "n_read w2 = n_read w1 + Suc k" and
    s: "stderr w2 = stderr w1 @ ''read: '' @ strerror E e @ [CHR 0x0A]" by blast
  have h: "handlers w2 = [DisableRawMode]" and c: "n_tcsetattr w2 = 1"
    using d w1 by (simp_all add: same_device_def)
  have p: "process E n dev = Done (c_exit E 1 w2)"
    using l by (simp add: process_unfold [OF en])
  show "\<exists>w'. process E n dev = Done (1, w') \<and> n_read w' = Suc k \<and>
           stderr w' = ''read: '' @ strerror E e @ [CHR 0x0A]
             @ (case tcsetattr_ret E 1 of None \<Rightarrow> []
                | Some e' \<Rightarrow> ''tcsetattr: '' @ strerror E e' @ [CHR 0x0A])"
    unfolding p c_exit_registered [OF h] c using r s w1
    by (cases "tcsetattr_ret E 1") simp_all
qed

theorem read_classification_witness:
  "process (sample_env True None None None [RByte CHR ''a'', RErr EAGAIN, RNone, RErr 5]) 9 cooked
     = Done (1, (init_world cooked)\<lparr>orig_termios := cooked, errno := 5,
         n_tcgetattr := 1, n_tcsetattr := 2, n_read := 4,
         stdout := ''97 ('' @ [CHR 0x27] @ ''a'' @ [CHR 0x27] @ '')'' @ [CHR 0x0D, CHR 0x0A]
           @ ''0'' @ [CHR 0x0D, CHR 0x0A] @ ''0'' @ [CHR 0x0D, CHR 0x0A],
         stderr := ''read: Input/output error'' @ [CHR 0x0A]\<rparr>)"
proof -
  let ?E = "sample_env True None None None [RByte CHR ''a'', RErr EAGAIN, RNone, RErr 5]"
  have hyp: "tcgetattr_ret ?E 0 = None \<and> (\<forall>j<3. goes_on (read_ret ?E j)) \<and>
        read_ret ?E 3 = RErr 5 \<and> (5::int) \<noteq> EAGAIN \<and> (3::nat) < 9"
    by (simp add: sample_env_def keys_def EAGAIN_def less_Suc_eq numeral_3_eq_3)
  from read_classification [of ?E "init_world cooked" 5 3 9 cooked] hyp
  obtain w' where p: "process ?E 9 cooked = Done (1, w')" and "n_read w' = Suc 3"
    and "stderr w' = ''read: '' @ strerror ?E 5 @ [CHR 0x0A]
             @ (case tcsetattr_ret ?E 1 of None \<Rightarrow> []
                | Some e' \<Rightarrow> ''tcsetattr: '' @ strerror ?E e' @ [CHR 0x0A])"
    by blast
  have "final (process ?E 9 cooked) = (init_world cooked)\<lparr>orig_termios := cooked, errno := 5,
         n_tcgetattr := 1, n_tcsetattr := 2, n_read := 4,
         stdout := ''97 ('' @ [CHR 0x27] @ ''a'' @ [CHR 0x27] @ '')'' @ [CHR 0x0D, CHR 0x0A]
           @ ''0'' @ [CHR 0x0D, CHR 0x0A] @ ''0'' @ [CHR 0x0D, CHR 0x0A],
         stderr := ''read: Input/output error'' @ [CHR 0x0A]\<rparr>"
    by code_simp
  then show ?thesis using p by simp
qed

subsection \<open>Input without q\<close>

text \<open>
  C8. When no read ever delivers the byte \<^verbatim>\<open>q\<close> (0x71), the loop is never
  left through its \<^verbatim>\<open>break\<close>: after any number of iterations it is either
  still running, or it has ended in \<^verbatim>\<open>die\<close> with status 1 at a read that
  failed with an error other than \<^verbatim>\<open>EAGAIN\<close>.
\<close>

theorem no_q_no_break:
  assumes "\<forall>i. read_ret E i \<noteq> RByte CHR ''q''"
  shows "(\<exists>w'. while_loop E n w = Running w')
       \<or> (\<exists>w' k e. while_loop E n w = Done (Exits 1 w') \<and> k < n \<and>
             read_ret E (n_read w + k) = RErr e \<and> e \<noteq> EAGAIN)"
proof (induction n arbitrary: w)
  case 0
  show ?case by simp
next
  case (Suc n)
  show ?case
  proof (cases "goes_on (read_ret E (n_read w))")
    case True
    from loop_body_goes_on [OF True] obtain w1 where
      b: "loop_body E w = Returns False w1" and r: "n_read w1 = n_read w + 1" by blast
    have step: "while_loop E (Suc n) w = while_loop E n w1" using b by simp
    from Suc.IH [of w1] show ?thesis
    proof
      assume "\<exists>w'. while_loop E n w1 = Running w'"
      then show ?thesis using step by simp
    next
      assume "\<exists>w' k e. while_loop E n w1 = Done (Exits 1 w') \<and> k < n \<and>
             read_ret E (n_read w1 + k) = RErr e \<and> e \<noteq> EAGAIN"
      then obtain w' k e where "while_loop E n w1 = Done (Exits 1 w')" "k < n"
        "read_ret E (n_read w1 + k) = RErr e" "e \<noteq> EAGAIN" by blast
      then have "while_loop E (Suc n) w = Done (Exits 1 w') \<and> Suc k < Suc n \<and>
        read_ret E (n_read w + Suc k) = RErr e \<and> e \<noteq> EAGAIN"
        using step r by simp
      then show ?thesis by blast
    qed
  next
    case False
    have "read_ret E (n_read w) \<noteq> RByte CHR ''q''" using assms by blast
    with False obtain e where f: "read_ret E (n_read w) = RErr e" and ne: "e \<noteq> EAGAIN"
      by (cases "read_ret E (n_read w)") auto
    have "while_loop E (Suc n) w = Done (Exits 1 (w\<lparr>n_read := n_read w + 1, errno := e,
        stderr := stderr w @ ''read: '' @ strerror E e @ [CHR 0x0A]\<rparr>)) \<and> 0 < Suc n \<and>
        read_ret E (n_read w + 0) = RErr e \<and> e \<noteq> EAGAIN"
      using f ne by (simp add: loop_body_fatal)
    then show ?thesis by blast
  qed
qed

theorem no_q_no_break_witness:
  "while_loop (sample_env True None None None [RByte CHR ''a'', RNone, RErr 5]) 2
      (init_world cooked)
     = Running ((init_world cooked)\<lparr>n_read := 2,
         stdout := ''97 ('' @ [CHR 0x27] @ ''a'' @ [CHR 0x27] @ '')'' @ [CHR 0x0D, CHR 0x0A]
           @ ''0'' @ [CHR 0x0D, CHR 0x0A]\<rparr>)
   \<and> while_loop (sample_env True None None None [RByte CHR ''a'', RNone, RErr 5]) 7
      (init_world cooked)
     = Done (Exits 1 ((init_world cooked)\<lparr>n_read := 3, errno := 5,
         stdout := ''97 ('' @ [CHR 0x27] @ ''a'' @ [CHR 0x27] @ '')'' @ [CHR 0x0D, CHR 0x0A]
           @ ''0'' @ [CHR 0x0D, CHR 0x0A],
         stderr := ''read: Input/output error'' @ [CHR 0x0A]\<rparr>))"
proof -
  let ?E = "sample_env True None None None [RByte CHR ''a'', RNone, RErr 5]"
  have noq: "\<forall>i. read_ret ?E i \<noteq> RByte CHR ''q''"
  proof
    fix i
    show "read_ret ?E i \<noteq> RByte CHR ''q''"
      using keys_cases [of "[RByte CHR ''a'', RNone, RErr 5]" i]
      by (auto simp add: sample_env_def)
  qed
  have two: "while_loop ?E 2 (init_world cooked)
     = Running ((init_world cooked)\<lparr>n_read := 2,
         stdout := ''97 ('' @ [CHR 0x27] @ ''a'' @ [CHR 0x27] @ '')'' @ [CHR 0x0D, CHR 0x0A]
           @ ''0'' @ [CHR 0x0D, CHR 0x0A]\<rparr>)"
    by code_simp
  have seven: "while_loop ?E 7 (init_world cooked)
     = Done (Exits 1 ((init_world cooked)\<lparr>n_read := 3, errno := 5,
         stdout := ''97 ('' @ [CHR 0x27] @ ''a'' @ [CHR 0x27] @ '')'' @ [CHR 0x0D, CHR 0x0A]
           @ ''0'' @ [CHR 0x0D, CHR 0x0A],
         stderr := ''read: Input/output error'' @ [CHR 0x0A]\<rparr>))"
    by code_simp
  from no_q_no_break [OF noq, of 7 "init_world cooked"] two seven
  show ?thesis by simp
qed

subsection \<open>The raw attributes\<close>

text \<open>
  C9. The attributes \<^verbatim>\<open>enableRawMode\<close> derives are the baseline with these
  changes and no other: in the input flags \<^verbatim>\<open>BRKINT\<close>, \<^verbatim>\<open>ICRNL\<close>,
  \<^verbatim>\<open>INPCK\<close>, \<^verbatim>\<open>ISTRIP\<close> and \<^verbatim>\<open>IXON\<close> are clear, in the
  output flags \<^verbatim>\<open>OPOST\<close> is clear, in the control flags the bits of
  \<^verbatim>\<open>CS8\<close> are set, in the local flags \<^verbatim>\<open>ECHO\<close>,
  \<^verbatim>\<open>ICANON\<close>, \<^verbatim>\<open>IEXTEN\<close> and \<^verbatim>\<open>ISIG\<close> are clear,
  \<^verbatim>\<open>c_cc[VMIN]\<close> is 0 and \<^verbatim>\<open>c_cc[VTIME]\<close> is 1 (tenths of a
  second). Every other bit of the four flag words, every other entry of
  \<^verbatim>\<open>c_cc\<close>, the line discipline and the two speeds are the baseline's.
\<close>

theorem raw_termios_changes:
  assumes len: "length (c_cc orig) = NCCS"
  shows "c_iflag (raw_termios orig) AND BRKINT = 0
       \<and> c_iflag (raw_termios orig) AND ICRNL = 0
       \<and> c_iflag (raw_termios orig) AND INPCK = 0
       \<and> c_iflag (raw_termios orig) AND ISTRIP = 0
       \<and> c_iflag (raw_termios orig) AND IXON = 0
       \<and> c_iflag (raw_termios orig) AND NOT (BRKINT OR ICRNL OR INPCK OR ISTRIP OR IXON)
           = c_iflag orig AND NOT (BRKINT OR ICRNL OR INPCK OR ISTRIP OR IXON)
       \<and> c_oflag (raw_termios orig) AND OPOST = 0
       \<and> c_oflag (raw_termios orig) AND NOT OPOST = c_oflag orig AND NOT OPOST
       \<and> c_cflag (raw_termios orig) AND CS8 = CS8
       \<and> c_cflag (raw_termios orig) AND NOT CS8 = c_cflag orig AND NOT CS8
       \<and> c_lflag (raw_termios orig) AND ECHO = 0
       \<and> c_lflag (raw_termios orig) AND ICANON = 0
       \<and> c_lflag (raw_termios orig) AND IEXTEN = 0
       \<and> c_lflag (raw_termios orig) AND ISIG = 0
       \<and> c_lflag (raw_termios orig) AND NOT (ECHO OR ICANON OR IEXTEN OR ISIG)
           = c_lflag orig AND NOT (ECHO OR ICANON OR IEXTEN OR ISIG)
       \<and> length (c_cc (raw_termios orig)) = NCCS
       \<and> c_cc (raw_termios orig) ! VMIN = 0
       \<and> c_cc (raw_termios orig) ! VTIME = 1
       \<and> (\<forall>i. i \<noteq> VMIN \<and> i \<noteq> VTIME \<longrightarrow> c_cc (raw_termios orig) ! i = c_cc orig ! i)
       \<and> c_line (raw_termios orig) = c_line orig
       \<and> c_ispeed (raw_termios orig) = c_ispeed orig
       \<and> c_ospeed (raw_termios orig) = c_ospeed orig"
proof -
  have i: "c_iflag (raw_termios orig)
      = c_iflag orig AND NOT (BRKINT OR ICRNL OR INPCK OR ISTRIP OR IXON)"
    and o: "c_oflag (raw_termios orig) = c_oflag orig AND NOT OPOST"
    and c: "c_cflag (raw_termios orig) = c_cflag orig OR CS8"
    and l: "c_lflag (raw_termios orig) = c_lflag orig AND NOT (ECHO OR ICANON OR IEXTEN OR ISIG)"
    and cc: "c_cc (raw_termios orig) = (c_cc orig)[VMIN := 0, VTIME := 1]"
    and rest: "c_line (raw_termios orig) = c_line orig"
      "c_ispeed (raw_termios orig) = c_ispeed orig" "c_ospeed (raw_termios orig) = c_ospeed orig"
    by (simp_all add: raw_termios_def Let_def)
  have flags: "c_iflag (raw_termios orig) AND BRKINT = 0
       \<and> c_iflag (raw_termios orig) AND ICRNL = 0
       \<and> c_iflag (raw_termios orig) AND INPCK = 0
       \<and> c_iflag (raw_termios orig) AND ISTRIP = 0
       \<and> c_iflag (raw_termios orig) AND IXON = 0
       \<and> c_iflag (raw_termios orig) AND NOT (BRKINT OR ICRNL OR INPCK OR ISTRIP OR IXON)
           = c_iflag orig AND NOT (BRKINT OR ICRNL OR INPCK OR ISTRIP OR IXON)
       \<and> c_oflag (raw_termios orig) AND OPOST = 0
       \<and> c_oflag (raw_termios orig) AND NOT OPOST = c_oflag orig AND NOT OPOST
       \<and> c_cflag (raw_termios orig) AND CS8 = CS8
       \<and> c_cflag (raw_termios orig) AND NOT CS8 = c_cflag orig AND NOT CS8
       \<and> c_lflag (raw_termios orig) AND ECHO = 0
       \<and> c_lflag (raw_termios orig) AND ICANON = 0
       \<and> c_lflag (raw_termios orig) AND IEXTEN = 0
       \<and> c_lflag (raw_termios orig) AND ISIG = 0
       \<and> c_lflag (raw_termios orig) AND NOT (ECHO OR ICANON OR IEXTEN OR ISIG)
           = c_lflag orig AND NOT (ECHO OR ICANON OR IEXTEN OR ISIG)"
    unfolding i o c l
    by (simp only: cleared_of_five cleared_of_four cleared_of_one and_not_idem simp_thms)
  have idx: "VMIN < length (c_cc orig)" "VTIME < length (c_cc orig)" "VMIN \<noteq> VTIME"
    using len by (simp_all add: NCCS_def VMIN_def VTIME_def)
  have chars: "length (c_cc (raw_termios orig)) = NCCS
       \<and> c_cc (raw_termios orig) ! VMIN = 0
       \<and> c_cc (raw_termios orig) ! VTIME = 1
       \<and> (\<forall>i. i \<noteq> VMIN \<and> i \<noteq> VTIME \<longrightarrow> c_cc (raw_termios orig) ! i = c_cc orig ! i)"
    unfolding cc using idx len by simp
  from flags chars rest show ?thesis by blast
qed

theorem raw_termios_changes_witness:
  "length (c_cc cooked) = NCCS
   \<and> c_iflag (raw_termios cooked) = 0x4000 \<and> c_iflag (raw_termios cooked) AND ICRNL = 0
   \<and> c_oflag (raw_termios cooked) = 0x4 \<and> c_oflag (raw_termios cooked) AND OPOST = 0
   \<and> c_cflag (raw_termios cooked) AND CS8 = CS8
   \<and> c_lflag (raw_termios cooked) = 0xA30 \<and> c_lflag (raw_termios cooked) AND ECHO = 0
   \<and> c_cc (raw_termios cooked) ! VMIN = 0 \<and> c_cc (raw_termios cooked) ! VTIME = 1
   \<and> c_cc (raw_termios cooked) ! 2 = c_cc cooked ! 2"
proof -
  have v: "(2::nat) \<noteq> VMIN \<and> 2 \<noteq> VTIME" by (simp add: VMIN_def VTIME_def)
  have i: "c_iflag (raw_termios cooked) = 0x4000" by code_simp
  have ol: "c_oflag (raw_termios cooked) = 0x4" "c_lflag (raw_termios cooked) = 0xA30"
    by code_simp+
  show ?thesis
    using raw_termios_changes [OF length_cooked] v i ol by (simp add: length_cooked)
qed

subsection \<open>The baseline is not written again\<close>

text \<open>
  C10. Once \<^verbatim>\<open>enableRawMode\<close> has stored the device's attributes in
  \<^verbatim>\<open>orig_termios\<close>, nothing writes to it again: not the rest of
  \<^verbatim>\<open>enableRawMode\<close> (the changes go to the local copy), not an iteration of
  the loop, not \<^verbatim>\<open>disableRawMode\<close>, not \<^verbatim>\<open>exit\<close>. So at every
  point the process reaches, after any number of iterations and after exit,
  \<^verbatim>\<open>orig_termios\<close> is the attributes the device had at entry.
\<close>

theorem orig_termios_kept:
  "(tcgetattr_ret E (n_tcgetattr w) = None \<longrightarrow>
      orig_termios (world_of (enableRawMode E w)) = tty w)
   \<and> orig_termios (world_of (loop_body E w)) = orig_termios w
   \<and> orig_termios (loop_world (while_loop E n w)) = orig_termios w
   \<and> orig_termios (world_of (disableRawMode E w)) = orig_termios w
   \<and> orig_termios (snd (c_exit E st w)) = orig_termios w
   \<and> (tcgetattr_ret E 0 = None \<longrightarrow> orig_termios (final (process E n dev)) = dev)"
proof (intro conjI impI)
  assume "tcgetattr_ret E (n_tcgetattr w) = None"
  then show "orig_termios (world_of (enableRawMode E w)) = tty w"
    by (simp add: enableRawMode_ok)
next
  show "orig_termios (world_of (loop_body E w)) = orig_termios w"
    using loop_body_same_device [of w E] by (simp add: same_device_def)
next
  show "orig_termios (loop_world (while_loop E n w)) = orig_termios w"
    using while_loop_same_device [of w E n] by (simp add: same_device_def)
next
  show "orig_termios (world_of (disableRawMode E w)) = orig_termios w"
    by (rule disableRawMode_orig)
next
  show "orig_termios (snd (c_exit E st w)) = orig_termios w"
    by (rule c_exit_orig)
next
  assume g: "tcgetattr_ret E 0 = None"
  from process_reached [OF g, of dev n] obtain w2 where
    o: "orig_termios w2 = dev" and
    p: "process E n dev = Running w2 \<or> (\<exists>st. process E n dev = Done (c_exit E st w2))"
    by blast
  from p show "orig_termios (final (process E n dev)) = dev"
  proof
    assume "process E n dev = Running w2"
    then show ?thesis using o by simp
  next
    assume "\<exists>st. process E n dev = Done (c_exit E st w2)"
    then obtain st' where q: "process E n dev = Done (c_exit E st' w2)" by blast
    have "final (Done (c_exit E st' w2)) = snd (c_exit E st' w2)"
      by (cases "c_exit E st' w2") simp
    then show ?thesis using q o c_exit_orig [of E st' w2] by simp
  qed
qed

theorem orig_termios_kept_witness:
  "orig_termios (world_of (enableRawMode (sample_env True None None None [RByte CHR ''q''])
      (init_world cooked))) = cooked
   \<and> tty (world_of (enableRawMode (sample_env True None None None [RByte CHR ''q''])
      (init_world cooked))) = raw_termios cooked
   \<and> orig_termios (final (process (sample_env True None None None [RByte CHR ''q'']) 0 cooked))
      = cooked
   \<and> orig_termios (final (process (sample_env True None None None [RByte CHR ''q'']) 1 cooked))
      = cooked"
proof -
  let ?E = "sample_env True None None None [RByte CHR ''q'']"
  have g: "tcgetattr_ret ?E (n_tcgetattr (init_world cooked)) = None"
    and g0: "tcgetattr_ret ?E 0 = None"
    by (simp_all add: sample_env_def)
  have t: "tty (world_of (enableRawMode ?E (init_world cooked))) = raw_termios cooked"
    by code_simp
  from orig_termios_kept [of ?E "init_world cooked" 0 0 cooked]
    orig_termios_kept [of ?E "init_world cooked" 1 0 cooked] g g0 t
  show ?thesis by (simp add: init_world_def)
qed

end
